theory Spec2Isabelle
  imports Main "HOL-Library.Word"
begin

unbundle bit_operations_syntax

section \<open>The machine state of CHIP-8.cpp\<close>

text \<open>
  The interpreter keeps its state in global variables. They are collected in one record
  that every operation takes and returns. \<open>BYTE\<close> is \<open>unsigned char\<close>, \<open>WORD\<close> is
  \<open>unsigned short int\<close>. The arrays are functions from the index; the source's array
  sizes are constants below, and every access whose index is computed from data is
  checked against them. The source performs no such check: an index outside an array, and
  \<open>back()\<close> on an empty vector, have no defined behaviour in C++. The model gives such an
  execution the result \<open>Inl f\<close>, where \<open>f\<close> names the access; \<open>Inl\<close> is never an
  error that the program itself detects or reports.

  \<open>console\<close> collects what the program prints with \<open>printf\<close>, in order.
\<close>

type_synonym BYTE = "8 word"
type_synonym WORD = "16 word"

record chip8 =
  m_GameMemory :: "nat \<Rightarrow> BYTE"
  m_Registers :: "nat \<Rightarrow> BYTE"
  m_Keyboard :: "nat \<Rightarrow> BYTE"
  m_AddressI :: WORD
  m_PC :: WORD
  m_Stack :: "WORD list"
  delayTimer :: BYTE
  soundTimer :: BYTE
  m_ScreenData :: "nat \<Rightarrow> nat \<Rightarrow> BYTE"
  console :: "string list"

datatype fault =
    MemoryOutOfBounds nat
  | ScreenOutOfBounds nat nat
  | StackEmpty

text \<open>\<open>BYTE m_GameMemory[0xFFF]\<close>: 4095 bytes, the indices 0 to 4094.\<close>

definition MEMORY_SIZE :: nat where
  "MEMORY_SIZE = 0xFFF"

definition SCREEN_WIDTH :: nat where
  "SCREEN_WIDTH = 64"

definition SCREEN_HEIGHT :: nat where
  "SCREEN_HEIGHT = 32"

definition numOfSprites :: nat where
  "numOfSprites = 16"

definition numOfPixels :: nat where
  "numOfPixels = 5"

definition m_FontData :: "BYTE list list" where
  "m_FontData =
    [[0xF0, 0x90, 0x90, 0x90, 0xF0],
     [0x20, 0x60, 0x20, 0x20, 0x70],
     [0xF0, 0x10, 0xF0, 0x80, 0xF0],
     [0xF0, 0x10, 0xF0, 0x10, 0xF0],
     [0x90, 0x90, 0xF0, 0x10, 0x10],
     [0xF0, 0x80, 0xF0, 0x10, 0xF0],
     [0xF0, 0x80, 0xF0, 0x90, 0xF0],
     [0xF0, 0x10, 0x20, 0x40, 0x40],
     [0xF0, 0x90, 0xF0, 0x90, 0xF0],
     [0xF0, 0x90, 0xF0, 0x10, 0xF0],
     [0xF0, 0x90, 0xF0, 0x90, 0x90],
     [0xE0, 0x90, 0xE0, 0x90, 0xE0],
     [0xF0, 0x80, 0x80, 0x80, 0xF0],
     [0xE0, 0x90, 0x90, 0x90, 0xE0],
     [0xF0, 0x80, 0xF0, 0x80, 0xF0],
     [0xF0, 0x80, 0xF0, 0x80, 0x80]]"

text \<open>The globals as C++ zero-initialises them before \<open>main\<close> runs.\<close>

definition power_on :: chip8 where
  "power_on =
    \<lparr> m_GameMemory = (\<lambda>a. 0), m_Registers = (\<lambda>i. 0), m_Keyboard = (\<lambda>i. 0),
      m_AddressI = 0, m_PC = 0, m_Stack = [], delayTimer = 0, soundTimer = 0,
      m_ScreenData = (\<lambda>x y. 0), console = [] \<rparr>"

subsection \<open>CPUReset\<close>

text \<open>
  The inner loop writes \<open>m_FontData[i][j]\<close> to \<open>m_GameMemory[i * numOfSprites + j]\<close>
  for \<open>j\<close> from 0 to 4, the outer loop runs \<open>i\<close> from 0 to 15 and prints a newline
  after each glyph. The stack, the timers and the screen are not touched.
\<close>

definition load_glyph :: "nat \<Rightarrow> (nat \<Rightarrow> BYTE) \<Rightarrow> (nat \<Rightarrow> BYTE)" where
  "load_glyph i mem =
     fold (\<lambda>j m. m(i * numOfSprites + j := m_FontData ! i ! j)) [0..<numOfPixels] mem"

definition CPUReset :: "chip8 \<Rightarrow> chip8" where
  "CPUReset s =
     s\<lparr> m_AddressI := 0, m_PC := 0x200,
        m_Registers := (\<lambda>i. 0), m_Keyboard := (\<lambda>i. 0),
        m_GameMemory := fold load_glyph [0..<numOfSprites] (\<lambda>a. 0),
        console := console s @ replicate numOfSprites ''\<newline>'' \<rparr>"

subsection \<open>Operand fields and fetch\<close>

definition GetRegisterX :: "WORD \<Rightarrow> nat" where
  "GetRegisterX opcode = unat (drop_bit 8 (opcode AND 0x0F00))"

definition GetRegisterY :: "WORD \<Rightarrow> nat" where
  "GetRegisterY opcode = unat (drop_bit 4 (opcode AND 0x00F0))"

text \<open>
  \<open>GetNextOpcode\<close> reads \<open>m_GameMemory[m_PC]\<close> and \<open>m_GameMemory[m_PC + 1]\<close> (the
  index \<open>m_PC + 1\<close> is computed in \<open>int\<close>, so it does not wrap), then adds 2 to the
  16-bit \<open>m_PC\<close>.
\<close>

definition GetNextOpcode :: "chip8 \<Rightarrow> fault + (WORD \<times> chip8)" where
  "GetNextOpcode s =
     (let pc = unat (m_PC s) in
      if \<not> pc < MEMORY_SIZE then Inl (MemoryOutOfBounds pc)
      else if \<not> pc + 1 < MEMORY_SIZE then Inl (MemoryOutOfBounds (pc + 1))
      else
        let res = push_bit 8 (ucast (m_GameMemory s pc) :: WORD);
            res = res OR ucast (m_GameMemory s (pc + 1))
        in Inr (res, s\<lparr> m_PC := m_PC s + 2 \<rparr>))"

subsection \<open>Flow control\<close>

definition Opcode00E0 :: "WORD \<Rightarrow> chip8 \<Rightarrow> chip8" where
  "Opcode00E0 opcode s = s\<lparr> m_ScreenData := (\<lambda>x y. 0) \<rparr>"

definition Opcode00EE :: "WORD \<Rightarrow> chip8 \<Rightarrow> fault + chip8" where
  "Opcode00EE opcode s =
     (if m_Stack s = [] then Inl StackEmpty
      else Inr (s\<lparr> m_PC := last (m_Stack s), m_Stack := butlast (m_Stack s) \<rparr>))"

definition Opcode1NNN :: "WORD \<Rightarrow> chip8 \<Rightarrow> chip8" where
  "Opcode1NNN opcode s = s\<lparr> m_PC := opcode AND 0x0FFF \<rparr>"

definition Opcode2NNN :: "WORD \<Rightarrow> chip8 \<Rightarrow> chip8" where
  "Opcode2NNN opcode s =
     s\<lparr> m_Stack := m_Stack s @ [m_PC s], m_PC := opcode AND 0x0FFF \<rparr>"

definition Opcode3XNN :: "WORD \<Rightarrow> chip8 \<Rightarrow> chip8" where
  "Opcode3XNN opcode s =
     (let regx = GetRegisterX opcode; nn = uint (opcode AND 0x00FF) in
      if uint (m_Registers s regx) = nn then s\<lparr> m_PC := m_PC s + 2 \<rparr> else s)"

definition Opcode4XNN :: "WORD \<Rightarrow> chip8 \<Rightarrow> chip8" where
  "Opcode4XNN opcode s =
     (let regx = GetRegisterX opcode; nn = uint (opcode AND 0x00FF) in
      if uint (m_Registers s regx) \<noteq> nn then s\<lparr> m_PC := m_PC s + 2 \<rparr> else s)"

definition Opcode5XY0 :: "WORD \<Rightarrow> chip8 \<Rightarrow> chip8" where
  "Opcode5XY0 opcode s =
     (if m_Registers s (GetRegisterX opcode) = m_Registers s (GetRegisterY opcode)
      then s\<lparr> m_PC := m_PC s + 2 \<rparr> else s)"

definition Opcode9XY0 :: "WORD \<Rightarrow> chip8 \<Rightarrow> chip8" where
  "Opcode9XY0 opcode s =
     (if m_Registers s (GetRegisterX opcode) \<noteq> m_Registers s (GetRegisterY opcode)
      then s\<lparr> m_PC := m_PC s + 2 \<rparr> else s)"

definition OpcodeBNNN :: "WORD \<Rightarrow> chip8 \<Rightarrow> chip8" where
  "OpcodeBNNN opcode s =
     (let nnn = uint (opcode AND 0x0FFF) in
      s\<lparr> m_PC := word_of_int (nnn + uint (m_Registers s 0)) \<rparr>)"

subsection \<open>Loads and arithmetic\<close>

definition Opcode6XNN :: "WORD \<Rightarrow> chip8 \<Rightarrow> chip8" where
  "Opcode6XNN opcode s =
     (let regx = GetRegisterX opcode; nn = uint (opcode AND 0x00FF) in
      s\<lparr> m_Registers := (m_Registers s)(regx := word_of_int nn) \<rparr>)"

definition Opcode7XNN :: "WORD \<Rightarrow> chip8 \<Rightarrow> chip8" where
  "Opcode7XNN opcode s =
     (let nn = uint (opcode AND 0x00FF); regx = GetRegisterX opcode in
      s\<lparr> m_Registers :=
           (m_Registers s)(regx := word_of_int (uint (m_Registers s regx) + nn)) \<rparr>)"

definition Opcode8XY0 :: "WORD \<Rightarrow> chip8 \<Rightarrow> chip8" where
  "Opcode8XY0 opcode s =
     s\<lparr> m_Registers :=
          (m_Registers s)(GetRegisterX opcode := m_Registers s (GetRegisterY opcode)) \<rparr>"

definition Opcode8XY1 :: "WORD \<Rightarrow> chip8 \<Rightarrow> chip8" where
  "Opcode8XY1 opcode s =
     s\<lparr> m_Registers :=
          (m_Registers s)(GetRegisterX opcode :=
             m_Registers s (GetRegisterX opcode) OR m_Registers s (GetRegisterY opcode)) \<rparr>"

definition Opcode8XY2 :: "WORD \<Rightarrow> chip8 \<Rightarrow> chip8" where
  "Opcode8XY2 opcode s =
     s\<lparr> m_Registers :=
          (m_Registers s)(GetRegisterX opcode :=
             m_Registers s (GetRegisterX opcode) AND m_Registers s (GetRegisterY opcode)) \<rparr>"

definition Opcode8XY3 :: "WORD \<Rightarrow> chip8 \<Rightarrow> chip8" where
  "Opcode8XY3 opcode s =
     s\<lparr> m_Registers :=
          (m_Registers s)(GetRegisterX opcode :=
             m_Registers s (GetRegisterX opcode) XOR m_Registers s (GetRegisterY opcode)) \<rparr>"

text \<open>
  The handlers with a flag write \<open>m_Registers[0xF]\<close> first and read the operands
  afterwards, so each step below works on the register file the step before left.
\<close>

definition Opcode8XY4 :: "WORD \<Rightarrow> chip8 \<Rightarrow> chip8" where
  "Opcode8XY4 opcode s =
     (let r0 = (m_Registers s)(0xF := 0);
          xval = uint (r0 (GetRegisterX opcode));
          yval = uint (r0 (GetRegisterY opcode));
          r1 = (if yval > xval then r0(0xF := 1) else r0);
          r2 = r1(GetRegisterX opcode :=
                  r1 (GetRegisterX opcode) + r1 (GetRegisterY opcode))
      in s\<lparr> m_Registers := r2 \<rparr>)"

definition Opcode8XY5 :: "WORD \<Rightarrow> chip8 \<Rightarrow> chip8" where
  "Opcode8XY5 opcode s =
     (let r0 = (m_Registers s)(0xF := 1);
          xval = uint (r0 (GetRegisterX opcode));
          yval = uint (r0 (GetRegisterY opcode));
          r1 = (if yval > xval then r0(0xF := 0) else r0);
          r2 = r1(GetRegisterX opcode := word_of_int (xval - yval))
      in s\<lparr> m_Registers := r2 \<rparr>)"

definition Opcode8XY6 :: "WORD \<Rightarrow> chip8 \<Rightarrow> chip8" where
  "Opcode8XY6 opcode s =
     (let yVal = uint (m_Registers s (GetRegisterY opcode));
          LSB = yVal AND 1;
          r0 = (m_Registers s)(0xF := word_of_int LSB);
          r1 = r0(GetRegisterY opcode := drop_bit 1 (r0 (GetRegisterY opcode)));
          r2 = r1(GetRegisterX opcode := r1 (GetRegisterY opcode))
      in s\<lparr> m_Registers := r2 \<rparr>)"

definition Opcode8XY7 :: "WORD \<Rightarrow> chip8 \<Rightarrow> chip8" where
  "Opcode8XY7 opcode s =
     (let r0 = (m_Registers s)(0xF := 1);
          xval = uint (r0 (GetRegisterX opcode));
          yval = uint (r0 (GetRegisterY opcode));
          r1 = (if yval > xval then r0(0xF := 0) else r0);
          r2 = r1(GetRegisterX opcode :=
                  r1 (GetRegisterX opcode) - r1 (GetRegisterY opcode))
      in s\<lparr> m_Registers := r2 \<rparr>)"

definition Opcode8XYE :: "WORD \<Rightarrow> chip8 \<Rightarrow> chip8" where
  "Opcode8XYE opcode s =
     (let r0 = (m_Registers s)(0xF := drop_bit 7 (m_Registers s (GetRegisterX opcode)));
          r1 = r0(GetRegisterX opcode := push_bit 1 (r0 (GetRegisterX opcode)))
      in s\<lparr> m_Registers := r1 \<rparr>)"

subsection \<open>Index register, random numbers, keys and timers\<close>

definition OpcodeANNN :: "WORD \<Rightarrow> chip8 \<Rightarrow> chip8" where
  "OpcodeANNN opcode s =
     (let nnn = uint (opcode AND 0x0FFF) in s\<lparr> m_AddressI := word_of_int nnn \<rparr>)"

text \<open>
  \<open>rand()\<close> is not a function of the machine state: the value it returns in this cycle,
  if it is called, is the parameter \<open>r\<close>.
\<close>

definition OpcodeCXNN :: "int \<Rightarrow> WORD \<Rightarrow> chip8 \<Rightarrow> chip8" where
  "OpcodeCXNN r opcode s =
     (let nn = uint (opcode AND 0x00FF) in
      s\<lparr> m_Registers := (m_Registers s)(GetRegisterX opcode := word_of_int (r AND nn)) \<rparr>)"

definition OpcodeEX9E :: "WORD \<Rightarrow> chip8 \<Rightarrow> chip8" where
  "OpcodeEX9E opcode s =
     (if m_Registers s (GetRegisterX opcode) = m_Keyboard s (GetRegisterX opcode)
      then s\<lparr> m_PC := m_PC s + 2 \<rparr> else s)"

definition OpcodeEXA1 :: "WORD \<Rightarrow> chip8 \<Rightarrow> chip8" where
  "OpcodeEXA1 opcode s =
     (if m_Registers s (GetRegisterX opcode) \<noteq> m_Keyboard s (GetRegisterX opcode)
      then s\<lparr> m_PC := m_PC s + 2 \<rparr> else s)"

definition OpcodeFX07 :: "WORD \<Rightarrow> chip8 \<Rightarrow> chip8" where
  "OpcodeFX07 opcode s =
     s\<lparr> m_Registers := (m_Registers s)(GetRegisterX opcode := delayTimer s) \<rparr>"

definition OpcodeFX15 :: "WORD \<Rightarrow> chip8 \<Rightarrow> chip8" where
  "OpcodeFX15 opcode s = s\<lparr> delayTimer := m_Registers s (GetRegisterX opcode) \<rparr>"

definition OpcodeFX18 :: "WORD \<Rightarrow> chip8 \<Rightarrow> chip8" where
  "OpcodeFX18 opcode s = s\<lparr> soundTimer := m_Registers s (GetRegisterX opcode) \<rparr>"

definition OpcodeFX1E :: "WORD \<Rightarrow> chip8 \<Rightarrow> chip8" where
  "OpcodeFX1E opcode s =
     s\<lparr> m_AddressI := m_AddressI s + ucast (m_Registers s (GetRegisterX opcode)) \<rparr>"

text \<open>
  \<open>OpcodeFX0A\<close> scans the 16 keys once, in ascending order, and stores the index of
  every pressed key into VX, so the highest pressed key remains. The local
  \<open>keyPressed\<close> is assigned and never read; the function returns after the scan
  whether or not a key was found.
\<close>

definition OpcodeFX0A :: "WORD \<Rightarrow> chip8 \<Rightarrow> chip8" where
  "OpcodeFX0A opcode s =
     s\<lparr> m_Registers :=
          fold (\<lambda>i regs. if m_Keyboard s i \<noteq> 0
                          then regs(GetRegisterX opcode := of_nat i) else regs)
               [0..<16] (m_Registers s) \<rparr>"

text \<open>
  \<open>*m_ScreenData[regx]\<close> is the element \<open>m_ScreenData[regx][0]\<close>: the pixel in column
  \<open>regx\<close>, row 0 of the display buffer. \<open>regx\<close> is the value of VX, up to 255, and
  the buffer has 64 columns.
\<close>

definition OpcodeFX29 :: "WORD \<Rightarrow> chip8 \<Rightarrow> fault + chip8" where
  "OpcodeFX29 opcode s =
     (let regx = unat (m_Registers s (GetRegisterX opcode)) in
      if regx < SCREEN_WIDTH then Inr (s\<lparr> m_AddressI := ucast (m_ScreenData s regx 0) \<rparr>)
      else Inl (ScreenOutOfBounds regx 0))"

subsection \<open>Memory transfers\<close>

definition write_memory :: "nat \<Rightarrow> BYTE \<Rightarrow> chip8 \<Rightarrow> fault + chip8" where
  "write_memory a v s =
     (if a < MEMORY_SIZE then Inr (s\<lparr> m_GameMemory := (m_GameMemory s)(a := v) \<rparr>)
      else Inl (MemoryOutOfBounds a))"

definition OpcodeFX33 :: "WORD \<Rightarrow> chip8 \<Rightarrow> fault + chip8" where
  "OpcodeFX33 opcode s =
     (let val = uint (m_Registers s (GetRegisterX opcode));
          hundreds = val div 100;
          tens = (val div 10) mod 10;
          units = val mod 10;
          a = unat (m_AddressI s)
      in case write_memory a (word_of_int hundreds) s of
           Inl f \<Rightarrow> Inl f
         | Inr s1 \<Rightarrow>
             (case write_memory (a + 1) (word_of_int tens) s1 of
                Inl f \<Rightarrow> Inl f
              | Inr s2 \<Rightarrow> write_memory (a + 2) (word_of_int units) s2))"

text \<open>The loops \<open>for (int i = 0; i <= regx; i++)\<close> run over the list \<open>[0..<regx + 1]\<close>.\<close>

fun store_registers :: "nat list \<Rightarrow> chip8 \<Rightarrow> fault + chip8" where
  "store_registers [] s = Inr s"
| "store_registers (i # rest) s =
     (case write_memory (unat (m_AddressI s) + i) (m_Registers s i) s of
        Inl f \<Rightarrow> Inl f
      | Inr s1 \<Rightarrow> store_registers rest s1)"

definition OpcodeFX55 :: "WORD \<Rightarrow> chip8 \<Rightarrow> fault + chip8" where
  "OpcodeFX55 opcode s =
     (let regx = GetRegisterX opcode in
      case store_registers [0..<regx + 1] s of
        Inl f \<Rightarrow> Inl f
      | Inr s1 \<Rightarrow> Inr (s1\<lparr> m_AddressI := m_AddressI s1 + of_nat regx + 1 \<rparr>))"

fun fill_registers :: "nat list \<Rightarrow> chip8 \<Rightarrow> fault + chip8" where
  "fill_registers [] s = Inr s"
| "fill_registers (i # rest) s =
     (let a = unat (m_AddressI s) + i in
      if a < MEMORY_SIZE
      then fill_registers rest (s\<lparr> m_Registers := (m_Registers s)(i := m_GameMemory s a) \<rparr>)
      else Inl (MemoryOutOfBounds a))"

definition OpcodeFX65 :: "WORD \<Rightarrow> chip8 \<Rightarrow> fault + chip8" where
  "OpcodeFX65 opcode s =
     (let xval = GetRegisterX opcode in
      case fill_registers [0..<xval + 1] s of
        Inl f \<Rightarrow> Inl f
      | Inr s1 \<Rightarrow> Inr (s1\<lparr> m_AddressI := m_AddressI s1 + of_nat xval + 1 \<rparr>))"

subsection \<open>OpcodeDXYN\<close>

text \<open>
  The inner loop of the draw instruction, over the values of \<open>xpixel\<close> still to come;
  \<open>xpixelinv\<close> starts at 7 and is decremented with every increment of \<open>xpixel\<close>, so it is
  \<open>7 - xpixel\<close>. The pixel \<open>m_ScreenData[x][y]\<close> with \<open>x = coordx + xpixel\<close> and
  \<open>y = coordy + yline\<close> is read and written as it is, with neither wrapping nor clipping.
\<close>

fun draw_line :: "BYTE \<Rightarrow> nat \<Rightarrow> nat \<Rightarrow> nat list \<Rightarrow> chip8 \<Rightarrow> fault + chip8" where
  "draw_line data coordx y [] s = Inr s"
| "draw_line data coordx y (xpixel # rest) s =
     (let xpixelinv = 7 - xpixel;
          mask = (push_bit xpixelinv 1 :: int)
      in if uint data AND mask \<noteq> 0 then
           (let x = coordx + xpixel in
            if x < SCREEN_WIDTH \<and> y < SCREEN_HEIGHT then
              (let s1 = (if m_ScreenData s x y = 1
                         then s\<lparr> m_Registers := (m_Registers s)(0xF := 1) \<rparr> else s);
                   s2 = s1\<lparr> m_ScreenData :=
                             (m_ScreenData s1)(x := (m_ScreenData s1 x)
                                (y := m_ScreenData s1 x y XOR 1)) \<rparr>
               in draw_line data coordx y rest s2)
            else Inl (ScreenOutOfBounds x y))
         else draw_line data coordx y rest s)"

text \<open>The outer loop, over the values of \<open>yline\<close> still to come.\<close>

fun draw_sprite :: "nat \<Rightarrow> nat \<Rightarrow> nat list \<Rightarrow> chip8 \<Rightarrow> fault + chip8" where
  "draw_sprite coordx coordy [] s = Inr s"
| "draw_sprite coordx coordy (yline # rest) s =
     (let a = unat (m_AddressI s) + yline in
      if a < MEMORY_SIZE then
        (case draw_line (m_GameMemory s a) coordx (coordy + yline) [0..<8] s of
           Inl f \<Rightarrow> Inl f
         | Inr s1 \<Rightarrow> draw_sprite coordx coordy rest s1)
      else Inl (MemoryOutOfBounds a))"

definition OpcodeDXYN :: "WORD \<Rightarrow> chip8 \<Rightarrow> fault + chip8" where
  "OpcodeDXYN opcode s =
     (let height = unat (opcode AND 0x000F);
          coordx = unat (m_Registers s (GetRegisterX opcode));
          coordy = unat (m_Registers s (GetRegisterY opcode));
          s0 = s\<lparr> m_Registers := (m_Registers s)(0xF := 0) \<rparr>
      in draw_sprite coordx coordy [0..<height] s0)"

subsection \<open>DecodeOpcodeCycle and the instruction cycle\<close>

text \<open>
  The \<open>switch\<close> of \<open>DecodeOpcodeCycle\<close>, case by case. The inner switches have no
  \<open>default\<close>: a word they do not list runs no handler. The outer \<open>default\<close> prints a
  message.
\<close>

definition dispatch :: "int \<Rightarrow> WORD \<Rightarrow> chip8 \<Rightarrow> fault + chip8" where
  "dispatch r opcode s =
     (let family = opcode AND 0xF000 in
      if family = 0x0000 then
        (let n = opcode AND 0x000F in
         if n = 0x0000 then Inr (Opcode00E0 opcode s)
         else if n = 0x000E then Opcode00EE opcode s
         else Inr s)
      else if family = 0x1000 then Inr (Opcode1NNN opcode s)
      else if family = 0x2000 then Inr (Opcode2NNN opcode s)
      else if family = 0x3000 then Inr (Opcode3XNN opcode s)
      else if family = 0x4000 then Inr (Opcode4XNN opcode s)
      else if family = 0x5000 then Inr (Opcode5XY0 opcode s)
      else if family = 0x6000 then Inr (Opcode6XNN opcode s)
      else if family = 0x7000 then Inr (Opcode7XNN opcode s)
      else if family = 0x8000 then
        (let n = opcode AND 0x000F in
         if n = 0x0000 then Inr (Opcode8XY0 opcode s)
         else if n = 0x0001 then Inr (Opcode8XY1 opcode s)
         else if n = 0x0002 then Inr (Opcode8XY2 opcode s)
         else if n = 0x0003 then Inr (Opcode8XY3 opcode s)
         else if n = 0x0004 then Inr (Opcode8XY4 opcode s)
         else if n = 0x0005 then Inr (Opcode8XY5 opcode s)
         else if n = 0x0006 then Inr (Opcode8XY6 opcode s)
         else if n = 0x0007 then Inr (Opcode8XY7 opcode s)
         else if n = 0x000E then Inr (Opcode8XYE opcode s)
         else Inr s)
      else if family = 0x9000 then Inr (Opcode9XY0 opcode s)
      else if family = 0xA000 then Inr (OpcodeANNN opcode s)
      else if family = 0xB000 then Inr (OpcodeBNNN opcode s)
      else if family = 0xC000 then Inr (OpcodeCXNN r opcode s)
      else if family = 0xD000 then OpcodeDXYN opcode s
      else if family = 0xE000 then
        (let nn = opcode AND 0x00FF in
         if nn = 0x009E then Inr (OpcodeEX9E opcode s)
         else if nn = 0x00A1 then Inr (OpcodeEXA1 opcode s)
         else Inr s)
      else if family = 0xF000 then
        (let nn = opcode AND 0x00FF in
         if nn = 0x0007 then Inr (OpcodeFX07 opcode s)
         else if nn = 0x000A then Inr (OpcodeFX0A opcode s)
         else if nn = 0x0015 then Inr (OpcodeFX15 opcode s)
         else if nn = 0x0018 then Inr (OpcodeFX18 opcode s)
         else if nn = 0x001E then Inr (OpcodeFX1E opcode s)
         else if nn = 0x0029 then OpcodeFX29 opcode s
         else if nn = 0x0033 then OpcodeFX33 opcode s
         else if nn = 0x0055 then OpcodeFX55 opcode s
         else if nn = 0x0065 then OpcodeFX65 opcode s
         else Inr s)
      else Inr (s\<lparr> console := console s @ [''No additional opcodes from this ROM.''] \<rparr>))"

text \<open>The two \<open>if\<close> statements that follow the \<open>switch\<close>, run on every call.\<close>

definition update_timers :: "chip8 \<Rightarrow> chip8" where
  "update_timers s =
     (let s1 = (if delayTimer s > 0 then s\<lparr> delayTimer := delayTimer s - 1 \<rparr> else s)
      in if soundTimer s1 > 0
         then s1\<lparr> console := console s1 @ [''Beeping sound''],
                  soundTimer := soundTimer s1 - 1 \<rparr>
         else s1)"

definition DecodeOpcodeCycle :: "int \<Rightarrow> WORD \<Rightarrow> chip8 \<Rightarrow> fault + chip8" where
  "DecodeOpcodeCycle r opcode s =
     (case dispatch r opcode s of
        Inl f \<Rightarrow> Inl f
      | Inr s1 \<Rightarrow> Inr (update_timers s1))"

text \<open>
  One pass of the loop of \<open>main\<close> on the machine state: \<open>GetNextOpcode\<close>, then
  \<open>DecodeOpcodeCycle\<close> on the word fetched. (Between the two, \<open>main\<close> copies the ROM
  file to address 0x200 again; the file and the window are outside this model.)
\<close>

definition cycle :: "int \<Rightarrow> chip8 \<Rightarrow> fault + chip8" where
  "cycle r s =
     (case GetNextOpcode s of
        Inl f \<Rightarrow> Inl f
      | Inr (opcode, s1) \<Rightarrow> DecodeOpcodeCycle r opcode s1)"

text \<open>Consecutive cycles, one value of \<open>rand()\<close> for each; the run ends at the first fault.\<close>

fun run_cycles :: "int list \<Rightarrow> chip8 \<Rightarrow> fault + chip8" where
  "run_cycles [] s = Inr s"
| "run_cycles (r # rs) s =
     (case cycle r s of Inl f \<Rightarrow> Inl f | Inr s1 \<Rightarrow> run_cycles rs s1)"

text \<open>
  The words for which no \<open>case\<close> label of \<open>DecodeOpcodeCycle\<close> matches: only the four
  families with an inner switch have any, since every other family calls its handler
  whatever the rest of the word is.
\<close>

definition no_handler :: "WORD \<Rightarrow> bool" where
  "no_handler opcode \<longleftrightarrow>
     (opcode AND 0xF000 = 0x0000 \<and> opcode AND 0x000F \<notin> {0x0, 0xE}) \<or>
     (opcode AND 0xF000 = 0x8000 \<and>
        opcode AND 0x000F \<notin> {0x0, 0x1, 0x2, 0x3, 0x4, 0x5, 0x6, 0x7, 0xE}) \<or>
     (opcode AND 0xF000 = 0xE000 \<and> opcode AND 0x00FF \<notin> {0x9E, 0xA1}) \<or>
     (opcode AND 0xF000 = 0xF000 \<and>
        opcode AND 0x00FF \<notin> {0x07, 0x0A, 0x15, 0x18, 0x1E, 0x29, 0x33, 0x55, 0x65})"

section \<open>Concrete machine states\<close>

text \<open>
  \<open>reset_state\<close> is the machine right after \<open>CPUReset\<close>. \<open>with_program\<close> places
  bytes from address 0x200 on, as the copy loop of \<open>LoadCH8ROM\<close> does, and
  \<open>set_registers\<close> gives registers the values a program has computed.
\<close>

definition reset_state :: chip8 where
  "reset_state = CPUReset power_on"

definition with_program :: "BYTE list \<Rightarrow> chip8 \<Rightarrow> chip8" where
  "with_program rom s =
     s\<lparr> m_GameMemory :=
          fold (\<lambda>i m. m(i + 0x200 := rom ! i)) [0..<length rom] (m_GameMemory s) \<rparr>"

definition set_registers :: "(nat \<times> BYTE) list \<Rightarrow> chip8 \<Rightarrow> chip8" where
  "set_registers vs s =
     s\<lparr> m_Registers := fold (\<lambda>(i, v) regs. regs(i := v)) vs (m_Registers s) \<rparr>"

definition add_example :: chip8 where
  "add_example = set_registers [(0, 250), (1, 10)] reset_state"

definition subtract_example :: chip8 where
  "subtract_example = set_registers [(0, 5), (1, 10)] reset_state"

definition shift_left_example :: chip8 where
  "shift_left_example = set_registers [(0, 0x01), (1, 0x80)] reset_state"

definition shift_right_example :: chip8 where
  "shift_right_example = set_registers [(1, 7)] reset_state"

definition shift_right_flag_example :: chip8 where
  "shift_right_flag_example = set_registers [(0xF, 4)] reset_state"

definition font_example :: chip8 where
  "font_example = set_registers [(0, 2)] reset_state"

definition key_wait_example :: chip8 where
  "key_wait_example = with_program [0xF0, 0x0A, 0x60, 0x2A] reset_state"

definition unrouted_example :: chip8 where
  "unrouted_example = with_program [0x80, 0x08] reset_state"

definition word_5FFF_example :: chip8 where
  "word_5FFF_example = with_program [0x5F, 0xFF] reset_state"

definition full_stack_example :: chip8 where
  "full_stack_example = reset_state\<lparr> m_Stack := replicate 16 0x200, m_PC := 0x202 \<rparr>"

definition timer_example :: chip8 where
  "timer_example = reset_state\<lparr> delayTimer := 5 \<rparr>"

definition draw_example :: chip8 where
  "draw_example = set_registers [(0, 62)] reset_state"

section \<open>Basic facts\<close>

lemmas example_defs =
  reset_state_def CPUReset_def power_on_def load_glyph_def numOfSprites_def numOfPixels_def
  m_FontData_def with_program_def set_registers_def GetRegisterX_def GetRegisterY_def upt_rec

lemmas pure_handler_defs =
  Opcode00E0_def Opcode1NNN_def Opcode2NNN_def Opcode3XNN_def Opcode4XNN_def Opcode5XY0_def
  Opcode6XNN_def Opcode7XNN_def Opcode8XY0_def Opcode8XY1_def Opcode8XY2_def Opcode8XY3_def
  Opcode8XY4_def Opcode8XY5_def Opcode8XY6_def Opcode8XY7_def Opcode8XYE_def Opcode9XY0_def
  OpcodeANNN_def OpcodeBNNN_def OpcodeCXNN_def OpcodeEX9E_def OpcodeEXA1_def OpcodeFX07_def
  OpcodeFX0A_def OpcodeFX1E_def

text \<open>
  A register index is one nibble of the opcode, so it is always inside
  \<open>m_Registers[16]\<close> and \<open>m_Keyboard[16]\<close>: these accesses need no check.
\<close>

lemma GetRegisterX_less: "GetRegisterX opcode < 16"
proof -
  have "drop_bit 8 (opcode AND 0x0F00) = drop_bit 8 opcode AND 0xF"
    by simp
  moreover have "drop_bit 8 opcode AND 0xF \<le> 0xF"
    by (rule word_and_le1)
  ultimately show ?thesis
    by (simp add: GetRegisterX_def word_le_nat_alt)
qed

lemma GetRegisterY_less: "GetRegisterY opcode < 16"
proof -
  have "drop_bit 4 (opcode AND 0x00F0) = drop_bit 4 opcode AND 0xF"
    by simp
  moreover have "drop_bit 4 opcode AND 0xF \<le> 0xF"
    by (rule word_and_le1)
  ultimately show ?thesis
    by (simp add: GetRegisterY_def word_le_nat_alt)
qed

lemma GetNextOpcode_state:
  "GetNextOpcode s = Inr (opcode, s1) \<Longrightarrow> s1 = s\<lparr> m_PC := m_PC s + 2 \<rparr>"
  by (auto simp: GetNextOpcode_def Let_def split: if_splits)

lemma update_timers_frame:
  "m_PC (update_timers s) = m_PC s"
  "m_Registers (update_timers s) = m_Registers s"
  "m_GameMemory (update_timers s) = m_GameMemory s"
  "m_Stack (update_timers s) = m_Stack s"
  "m_ScreenData (update_timers s) = m_ScreenData s"
  "m_AddressI (update_timers s) = m_AddressI s"
  "m_Keyboard (update_timers s) = m_Keyboard s"
  by (simp_all add: update_timers_def Let_def)

lemma update_timers_delay:
  "delayTimer (update_timers s) = (if delayTimer s > 0 then delayTimer s - 1 else 0)"
  by (simp add: update_timers_def Let_def word_greater_zero_iff)

lemma update_timers_sound:
  "soundTimer (update_timers s) = (if soundTimer s > 0 then soundTimer s - 1 else 0)"
  by (simp add: update_timers_def Let_def word_greater_zero_iff)

lemma update_timers_console:
  "console (update_timers s) =
     console s @ (if soundTimer s > 0 then [''Beeping sound''] else [])"
  by (simp add: update_timers_def Let_def)

section \<open>Arithmetic with a flag\<close>

text \<open>
  What the four arithmetic handlers and the two shifts leave in VX and in VF, for operand
  registers other than VF itself.
\<close>

lemma Opcode8XY4_registers:
  assumes "GetRegisterX opcode \<noteq> 0xF" and "GetRegisterY opcode \<noteq> 0xF"
  shows "m_Registers (Opcode8XY4 opcode s) (GetRegisterX opcode) =
           m_Registers s (GetRegisterX opcode) + m_Registers s (GetRegisterY opcode) \<and>
         m_Registers (Opcode8XY4 opcode s) 0xF =
           (if m_Registers s (GetRegisterY opcode) > m_Registers s (GetRegisterX opcode)
            then 1 else 0)"
  using assms by (simp add: Opcode8XY4_def Let_def word_less_def)

lemma Opcode8XY5_registers:
  assumes "GetRegisterX opcode \<noteq> 0xF" and "GetRegisterY opcode \<noteq> 0xF"
  shows "m_Registers (Opcode8XY5 opcode s) (GetRegisterX opcode) =
           m_Registers s (GetRegisterX opcode) - m_Registers s (GetRegisterY opcode) \<and>
         m_Registers (Opcode8XY5 opcode s) 0xF =
           (if m_Registers s (GetRegisterX opcode) < m_Registers s (GetRegisterY opcode)
            then 0 else 1)"
  using assms by (simp add: Opcode8XY5_def Let_def word_less_def)

lemma Opcode8XY7_registers:
  assumes "GetRegisterX opcode \<noteq> 0xF" and "GetRegisterY opcode \<noteq> 0xF"
  shows "m_Registers (Opcode8XY7 opcode s) (GetRegisterX opcode) =
           m_Registers s (GetRegisterX opcode) - m_Registers s (GetRegisterY opcode) \<and>
         m_Registers (Opcode8XY7 opcode s) 0xF =
           (if m_Registers s (GetRegisterX opcode) < m_Registers s (GetRegisterY opcode)
            then 0 else 1)"
  using assms by (simp add: Opcode8XY7_def Let_def word_less_def)

lemma Opcode8XY6_registers:
  assumes "GetRegisterX opcode \<noteq> 0xF" and "GetRegisterY opcode \<noteq> 0xF"
  shows "m_Registers (Opcode8XY6 opcode s) (GetRegisterX opcode) =
           drop_bit 1 (m_Registers s (GetRegisterY opcode)) \<and>
         m_Registers (Opcode8XY6 opcode s) 0xF = m_Registers s (GetRegisterY opcode) AND 1"
  using assms by (simp add: Opcode8XY6_def Let_def of_int_and_eq)

lemma Opcode8XYE_registers:
  assumes "GetRegisterX opcode \<noteq> 0xF"
  shows "m_Registers (Opcode8XYE opcode s) (GetRegisterX opcode) =
           push_bit 1 (m_Registers s (GetRegisterX opcode)) \<and>
         m_Registers (Opcode8XYE opcode s) 0xF =
           drop_bit 7 (m_Registers s (GetRegisterX opcode))"
  using assms by (simp add: Opcode8XYE_def Let_def)

text \<open>
  C1. The claim: 8XY4 sets VF to 1 exactly when VX + VY exceeds 255 and stores the sum
  modulo 256 in VX, so V0 = 250, V1 = 10 gives V0 = 4 with VF = 1. \<open>Opcode8XY4\<close>
  stores the sum modulo 256, but it sets VF by comparing the operands (1 when VY > VX).
  On the claim's own example, opcode 0x8014 with V0 = 250 and V1 = 10, the sum wraps to 4
  and VF is 0.
\<close>

theorem add_sets_flag_by_comparison:
  "m_Registers add_example 0 = 250 \<and> m_Registers add_example 1 = 10 \<and>
   m_Registers (Opcode8XY4 0x8014 add_example) 0 = 4 \<and>
   m_Registers (Opcode8XY4 0x8014 add_example) 0xF = 0"
  by (simp add: add_example_def Opcode8XY4_def example_defs)

text \<open>
  C2. The claim: 8XY5 stores VX - VY and 8XY7 stores VY - VX in VX, each with VF = 0
  exactly when the minuend is less than the subtrahend. \<open>Opcode8XY5\<close> does so
  (\<open>Opcode8XY5_registers\<close>). \<open>Opcode8XY7\<close> has the body of \<open>Opcode8XY5\<close>: it
  stores VX - VY and clears VF when VY > VX (\<open>Opcode8XY7_registers\<close>). With opcode
  0x8017, V0 = 5 and V1 = 10, the claim gives V0 = 10 - 5 = 5 and VF = 1; the handler
  leaves V0 = 251 and VF = 0.
\<close>

theorem reverse_subtract_computes_VX_minus_VY:
  "m_Registers subtract_example 0 = 5 \<and> m_Registers subtract_example 1 = 10 \<and>
   m_Registers (Opcode8XY7 0x8017 subtract_example) 0 = 251 \<and>
   m_Registers (Opcode8XY7 0x8017 subtract_example) 0xF = 0"
  by (simp add: subtract_example_def Opcode8XY7_def example_defs)

text \<open>
  C3. The claim: both shifts put the bit shifted out of VY into VF and the shifted VY
  into VX. \<open>Opcode8XY6\<close> does so (\<open>Opcode8XY6_registers\<close>). \<open>Opcode8XYE\<close> never
  reads VY: it takes the top bit of VX and shifts VX in place
  (\<open>Opcode8XYE_registers\<close>). With opcode 0x801E, V0 = 0x01 and V1 = 0x80, the claim
  gives VF = 1 and V0 = 0; the handler leaves VF = 0 and V0 = 2.
\<close>

theorem shift_left_reads_VX:
  "m_Registers shift_left_example 0 = 0x01 \<and> m_Registers shift_left_example 1 = 0x80 \<and>
   m_Registers (Opcode8XYE 0x801E shift_left_example) 0 = 2 \<and>
   m_Registers (Opcode8XYE 0x801E shift_left_example) 0xF = 0"
  by (simp add: shift_left_example_def Opcode8XYE_def example_defs)

text \<open>
  C10, as amended. For 8XY6 with X \<noteq> Y and Y \<noteq> F, VY is overwritten with its
  former value shifted right by one bit, the same value that VX receives.
\<close>

theorem shift_right_overwrites_VY:
  assumes "GetRegisterX opcode \<noteq> GetRegisterY opcode" and "GetRegisterY opcode \<noteq> 0xF"
  shows "m_Registers (Opcode8XY6 opcode s) (GetRegisterY opcode) =
           drop_bit 1 (m_Registers s (GetRegisterY opcode)) \<and>
         m_Registers (Opcode8XY6 opcode s) (GetRegisterX opcode) =
           drop_bit 1 (m_Registers s (GetRegisterY opcode))"
  using assms by (simp add: Opcode8XY6_def Let_def)

text \<open>C10, an instance: opcode 0x8016 with V1 = 7 leaves 3 in V1 and in V0.\<close>

theorem shift_right_overwrites_VY_witness:
  "GetRegisterX 0x8016 \<noteq> GetRegisterY 0x8016 \<and> GetRegisterY 0x8016 \<noteq> 0xF \<and>
   m_Registers shift_right_example 1 = 7 \<and>
   m_Registers (Opcode8XY6 0x8016 shift_right_example) 1 = 3 \<and>
   m_Registers (Opcode8XY6 0x8016 shift_right_example) 0 = 3"
proof -
  have a: "GetRegisterX 0x8016 \<noteq> GetRegisterY 0x8016"
    by (simp add: GetRegisterX_def GetRegisterY_def)
  have b: "GetRegisterY 0x8016 \<noteq> 0xF"
    by (simp add: GetRegisterY_def)
  have c: "GetRegisterX 0x8016 = 0" "GetRegisterY 0x8016 = 1"
    "m_Registers shift_right_example 1 = 7"
    by (simp_all add: shift_right_example_def example_defs)
  show ?thesis
    using a b c shift_right_overwrites_VY [OF a b, of shift_right_example] by simp
qed

text \<open>
  C10 as stated, for every X \<noteq> Y, fails when Y is F: the handler first stores the low
  bit of VF in VF and then shifts that bit out. Opcode 0x80F6 with VF = 4 leaves VF = 0,
  where VF shifted right by one is 2.
\<close>

theorem shift_right_of_VF:
  "GetRegisterX 0x80F6 \<noteq> GetRegisterY 0x80F6 \<and>
   m_Registers shift_right_flag_example (GetRegisterY 0x80F6) = 4 \<and>
   m_Registers (Opcode8XY6 0x80F6 shift_right_flag_example) (GetRegisterY 0x80F6) = 0 \<and>
   drop_bit 1 (m_Registers shift_right_flag_example (GetRegisterY 0x80F6)) = 2"
  by (simp add: shift_right_flag_example_def Opcode8XY6_def example_defs)

section \<open>Font lookup and key wait\<close>

lemma OpcodeFX29_address:
  "OpcodeFX29 opcode s = Inr s' \<Longrightarrow>
     m_AddressI s' = ucast (m_ScreenData s (unat (m_Registers s (GetRegisterX opcode))) 0)"
  by (auto simp: OpcodeFX29_def Let_def split: if_splits)

text \<open>
  C4. The claim: FX29 sets I to font base + digit * 5, the address of the glyph of the
  digit in VX. \<open>OpcodeFX29\<close> sets I to the value of the display pixel in column VX,
  row 0 (\<open>OpcodeFX29_address\<close>). Right after reset, with V0 = 2 and opcode 0xF029, the
  screen is blank and I becomes 0, the address of glyph 0; the claim gives 10.
  (\<open>CPUReset\<close> lays the glyphs out 16 bytes apart, so glyph 2 starts at address 32 and
  address 10 holds 0.)
\<close>

theorem font_lookup_reads_display:
  "m_Registers font_example 0 = 2 \<and>
   map_sum id m_AddressI (OpcodeFX29 0xF029 font_example) = Inr 0 \<and>
   m_GameMemory font_example 32 = 0xF0 \<and> m_GameMemory font_example 10 = 0"
  by (simp add: font_example_def OpcodeFX29_def SCREEN_WIDTH_def example_defs)

lemma OpcodeFX0A_no_key:
  assumes "\<forall>i<16. m_Keyboard s i = 0"
  shows "OpcodeFX0A opcode s = s"
  using assms by (simp add: OpcodeFX0A_def upt_rec)

lemma key_wait_advances:
  assumes "GetNextOpcode s = Inr (opcode, s1)"
    and "opcode AND 0xF000 = 0xF000" and "opcode AND 0x00FF = 0x000A"
    and "\<forall>i<16. m_Keyboard s i = 0"
  shows "cycle r s = Inr (update_timers (s\<lparr> m_PC := m_PC s + 2 \<rparr>))"
proof -
  have s1: "s1 = s\<lparr> m_PC := m_PC s + 2 \<rparr>"
    using assms(1) by (rule GetNextOpcode_state)
  have "OpcodeFX0A opcode s1 = s1"
    using assms(4) by (simp add: OpcodeFX0A_no_key s1)
  then show ?thesis
    using assms(2,3) by (simp add: cycle_def assms(1) DecodeOpcodeCycle_def dispatch_def s1)
qed

text \<open>
  C5. The claim: after FX0A with no key pressed the program counter does not advance and
  no further instruction runs until a key is pressed. \<open>OpcodeFX0A\<close> scans the keys once
  and returns; the fetch has already added 2 to the program counter
  (\<open>key_wait_advances\<close>). With the words F00A, 602A at 0x200 and no key pressed, the
  first cycle ends with PC = 0x202, and the second executes 602A: PC = 0x204, V0 = 0x2A.
\<close>

theorem key_wait_falls_through:
  "m_Keyboard key_wait_example = (\<lambda>i. 0) \<and> m_PC key_wait_example = 0x200 \<and>
   map_sum id m_PC (run_cycles [0] key_wait_example) = Inr 0x202 \<and>
   map_sum id (\<lambda>s. (m_PC s, m_Registers s 0)) (run_cycles [0, 0] key_wait_example) =
     Inr (0x204, 0x2A)"
  by (simp add: key_wait_example_def cycle_def GetNextOpcode_def MEMORY_SIZE_def
      DecodeOpcodeCycle_def dispatch_def OpcodeFX0A_def Opcode6XNN_def update_timers_def
      example_defs)

section \<open>Words without a handler\<close>

lemma dispatch_no_handler: "no_handler opcode \<Longrightarrow> dispatch r opcode s = Inr s"
  unfolding no_handler_def dispatch_def Let_def
  by (elim disjE conjE) simp_all

text \<open>
  C6, as amended. For every opcode word that the dispatcher routes to no handler (high
  nibble 0, 8, E or F with a low nibble or low byte that the inner switch does not list),
  the cycle completes without halting, the program counter advances by exactly 2, and
  registers, memory, index register, stack and framebuffer are unchanged. Nothing is
  printed for the word; the timer step of the cycle still runs, and prints its beep
  message when the sound timer is nonzero.
\<close>

theorem unrouted_opcode_is_noop:
  assumes "no_handler opcode" and "GetNextOpcode s = Inr (opcode, s1)"
  shows "\<exists>s'. cycle r s = Inr s' \<and> m_PC s' = m_PC s + 2 \<and>
           m_Registers s' = m_Registers s \<and> m_GameMemory s' = m_GameMemory s \<and>
           m_Stack s' = m_Stack s \<and> m_ScreenData s' = m_ScreenData s \<and>
           m_AddressI s' = m_AddressI s \<and>
           console s' = console s @ (if soundTimer s > 0 then [''Beeping sound''] else [])"
proof -
  from assms(2) have s1: "s1 = s\<lparr> m_PC := m_PC s + 2 \<rparr>"
    by (rule GetNextOpcode_state)
  have "cycle r s = Inr (update_timers s1)"
    by (simp add: cycle_def assms(2) DecodeOpcodeCycle_def dispatch_no_handler [OF assms(1)])
  then show ?thesis
    by (simp add: s1 update_timers_frame update_timers_console)
qed

text \<open>C6, an instance: the word 0x8008 at 0x200, right after reset.\<close>

theorem unrouted_opcode_is_noop_witness:
  "no_handler 0x8008 \<and>
   GetNextOpcode unrouted_example = Inr (0x8008, unrouted_example\<lparr> m_PC := 0x202 \<rparr>) \<and>
   (\<exists>s'. cycle 0 unrouted_example = Inr s' \<and> m_PC s' = 0x202 \<and>
      m_Registers s' = m_Registers unrouted_example \<and>
      m_GameMemory s' = m_GameMemory unrouted_example \<and>
      m_Stack s' = m_Stack unrouted_example \<and>
      m_ScreenData s' = m_ScreenData unrouted_example \<and>
      m_AddressI s' = m_AddressI unrouted_example \<and>
      console s' = console unrouted_example)"
proof -
  have a: "no_handler 0x8008" by (simp add: no_handler_def)
  have b: "GetNextOpcode unrouted_example = Inr (0x8008, unrouted_example\<lparr> m_PC := 0x202 \<rparr>)"
    by (simp add: unrouted_example_def GetNextOpcode_def MEMORY_SIZE_def example_defs)
  have c: "m_PC unrouted_example + 2 = 0x202" "soundTimer unrouted_example = 0"
    by (simp_all add: unrouted_example_def example_defs)
  show ?thesis
    using a b unrouted_opcode_is_noop [OF a b, of 0] by (simp add: c)
qed

text \<open>
  C6 as stated names 0x5FFF as a word without a handler. The dispatcher sends every word
  with high nibble 5 to \<open>Opcode5XY0\<close>; for 0x5FFF both operands are VF, the comparison
  holds, and the program counter ends 4 past the instruction, with nothing printed.
\<close>

theorem word_5FFF_skips:
  "m_PC word_5FFF_example = 0x200 \<and>
   map_sum id (\<lambda>s'. (m_PC s', console s')) (cycle 0 word_5FFF_example) =
     Inr (0x204, console word_5FFF_example)"
  by (simp add: word_5FFF_example_def cycle_def GetNextOpcode_def MEMORY_SIZE_def
      DecodeOpcodeCycle_def dispatch_def Opcode5XY0_def update_timers_def example_defs)

section \<open>The call stack\<close>

text \<open>
  C7, as amended. Executing the subroutine call (2NNN) is never an error, also when the
  stack already holds 16 saved addresses: the stack is a growing sequence, the call
  appends the program counter to it and jumps to NNN, and the cycle completes.
\<close>

theorem call_pushes_without_limit:
  assumes "opcode AND 0xF000 = 0x2000"
  shows "\<exists>s'. DecodeOpcodeCycle r opcode s = Inr s' \<and>
           m_Stack s' = m_Stack s @ [m_PC s] \<and>
           length (m_Stack s') = length (m_Stack s) + 1 \<and>
           m_PC s' = opcode AND 0x0FFF"
  using assms
  by (simp add: DecodeOpcodeCycle_def dispatch_def Opcode2NNN_def update_timers_frame)

text \<open>C7, an instance: the call 0x2300 on a stack of 16 addresses.\<close>

theorem call_pushes_without_limit_witness:
  "(0x2300 :: WORD) AND 0xF000 = 0x2000 \<and> length (m_Stack full_stack_example) = 16 \<and>
   (\<exists>s'. DecodeOpcodeCycle 0 0x2300 full_stack_example = Inr s' \<and>
      length (m_Stack s') = 17 \<and> m_PC s' = 0x300)"
proof -
  have a: "(0x2300 :: WORD) AND 0xF000 = 0x2000" by simp
  have b: "length (m_Stack full_stack_example) = 16"
    by (simp add: full_stack_example_def)
  show ?thesis
    using a b call_pushes_without_limit [OF a, of 0 full_stack_example] by auto
qed

text \<open>
  C7 as stated makes a call on a stack of 16 addresses a fatal error that stops the
  interpreter. The cycle of 0x2300 on such a stack completes, with 17 addresses on the
  stack and the program counter at 0x300.
\<close>

theorem call_on_full_stack:
  "DecodeOpcodeCycle 0 0x2300 full_stack_example =
     Inr (full_stack_example\<lparr> m_Stack := replicate 16 0x200 @ [0x202], m_PC := 0x300 \<rparr>)"
  by (simp add: full_stack_example_def DecodeOpcodeCycle_def dispatch_def Opcode2NNN_def
      update_timers_def example_defs)

section \<open>Timers\<close>

text \<open>No handler other than FX15 and FX18 writes a timer.\<close>

lemma write_memory_timers:
  "write_memory a v s = Inr s' \<Longrightarrow>
     delayTimer s' = delayTimer s \<and> soundTimer s' = soundTimer s"
  by (auto simp: write_memory_def split: if_splits)

lemma store_registers_timers:
  "store_registers is s = Inr s' \<Longrightarrow>
     delayTimer s' = delayTimer s \<and> soundTimer s' = soundTimer s"
proof (induction "is" arbitrary: s)
  case Nil
  then show ?case by simp
next
  case (Cons i rest)
  then show ?case
    by (auto split: sum.splits dest!: write_memory_timers)
qed

lemma fill_registers_timers:
  "fill_registers is s = Inr s' \<Longrightarrow>
     delayTimer s' = delayTimer s \<and> soundTimer s' = soundTimer s"
proof (induction "is" arbitrary: s)
  case Nil
  then show ?case by simp
next
  case (Cons i rest)
  from Cons.prems show ?case
    by (auto simp: Let_def split: if_splits dest!: Cons.IH)
qed

lemma draw_line_timers:
  "draw_line data coordx y xs s = Inr s' \<Longrightarrow>
     delayTimer s' = delayTimer s \<and> soundTimer s' = soundTimer s"
proof (induction xs arbitrary: s)
  case Nil
  then show ?case by simp
next
  case (Cons xpixel rest)
  from Cons.prems show ?case
    by (auto simp: Let_def split: if_splits dest!: Cons.IH)
qed

lemma draw_sprite_timers:
  "draw_sprite coordx coordy ys s = Inr s' \<Longrightarrow>
     delayTimer s' = delayTimer s \<and> soundTimer s' = soundTimer s"
proof (induction ys arbitrary: s)
  case Nil
  then show ?case by simp
next
  case (Cons yline rest)
  from Cons.prems show ?case
    by (auto simp: Let_def split: if_splits sum.splits dest!: Cons.IH draw_line_timers)
qed

lemma OpcodeDXYN_timers:
  "OpcodeDXYN opcode s = Inr s' \<Longrightarrow>
     delayTimer s' = delayTimer s \<and> soundTimer s' = soundTimer s"
  by (auto simp: OpcodeDXYN_def Let_def dest!: draw_sprite_timers)

lemma OpcodeFX33_timers:
  "OpcodeFX33 opcode s = Inr s' \<Longrightarrow>
     delayTimer s' = delayTimer s \<and> soundTimer s' = soundTimer s"
  by (auto simp: OpcodeFX33_def Let_def split: sum.splits dest!: write_memory_timers)

lemma OpcodeFX55_timers:
  "OpcodeFX55 opcode s = Inr s' \<Longrightarrow>
     delayTimer s' = delayTimer s \<and> soundTimer s' = soundTimer s"
  by (auto simp: OpcodeFX55_def Let_def split: sum.splits dest!: store_registers_timers)

lemma OpcodeFX65_timers:
  "OpcodeFX65 opcode s = Inr s' \<Longrightarrow>
     delayTimer s' = delayTimer s \<and> soundTimer s' = soundTimer s"
  by (auto simp: OpcodeFX65_def Let_def split: sum.splits dest!: fill_registers_timers)

lemma OpcodeFX29_timers:
  "OpcodeFX29 opcode s = Inr s' \<Longrightarrow>
     delayTimer s' = delayTimer s \<and> soundTimer s' = soundTimer s"
  by (auto simp: OpcodeFX29_def Let_def split: if_splits)

lemma Opcode00EE_timers:
  "Opcode00EE opcode s = Inr s' \<Longrightarrow>
     delayTimer s' = delayTimer s \<and> soundTimer s' = soundTimer s"
  by (auto simp: Opcode00EE_def split: if_splits)

lemma dispatch_timers:
  assumes "dispatch r opcode s = Inr s'"
    and "\<not> (opcode AND 0xF000 = 0xF000 \<and> opcode AND 0x00FF = 0x0015)"
    and "\<not> (opcode AND 0xF000 = 0xF000 \<and> opcode AND 0x00FF = 0x0018)"
  shows "delayTimer s' = delayTimer s \<and> soundTimer s' = soundTimer s"
  using assms unfolding dispatch_def Let_def
  by (auto simp: pure_handler_defs Let_def split: if_splits
      dest!: Opcode00EE_timers OpcodeDXYN_timers OpcodeFX29_timers OpcodeFX33_timers
        OpcodeFX55_timers OpcodeFX65_timers)

text \<open>
  C8, as amended. The delay and sound timers saturate at 0 and are decremented at the end
  of every call of \<open>DecodeOpcodeCycle\<close>, that is once per executed instruction: after
  the cycle of any instruction other than the two that set a timer (FX15, FX18), each
  timer is one less than before the cycle, or 0 if it was 0.
\<close>

theorem timers_decrement_per_cycle:
  assumes "DecodeOpcodeCycle r opcode s = Inr s'"
    and "\<not> (opcode AND 0xF000 = 0xF000 \<and> opcode AND 0x00FF = 0x0015)"
    and "\<not> (opcode AND 0xF000 = 0xF000 \<and> opcode AND 0x00FF = 0x0018)"
  shows "delayTimer s' = (if delayTimer s > 0 then delayTimer s - 1 else 0) \<and>
         soundTimer s' = (if soundTimer s > 0 then soundTimer s - 1 else 0)"
proof -
  from assms(1) obtain s1 where d: "dispatch r opcode s = Inr s1" and s': "s' = update_timers s1"
    by (auto simp: DecodeOpcodeCycle_def split: sum.splits)
  from dispatch_timers [OF d assms(2) assms(3)]
  have "delayTimer s1 = delayTimer s" "soundTimer s1 = soundTimer s" by simp_all
  then show ?thesis
    by (simp add: s' update_timers_delay update_timers_sound)
qed

text \<open>
  C8, an instance: one cycle of 0x6005 takes the delay timer from 5 to 4 and leaves the
  sound timer at 0.
\<close>

theorem timers_decrement_per_cycle_witness:
  "\<not> ((0x6005 :: WORD) AND 0xF000 = 0xF000 \<and> (0x6005 :: WORD) AND 0x00FF = 0x0015) \<and>
   \<not> ((0x6005 :: WORD) AND 0xF000 = 0xF000 \<and> (0x6005 :: WORD) AND 0x00FF = 0x0018) \<and>
   delayTimer timer_example = 5 \<and> soundTimer timer_example = 0 \<and>
   (\<exists>s'. DecodeOpcodeCycle 0 0x6005 timer_example = Inr s' \<and>
      delayTimer s' = 4 \<and> soundTimer s' = 0)"
proof -
  obtain s' where a: "DecodeOpcodeCycle 0 0x6005 timer_example = Inr s'"
    by (simp add: DecodeOpcodeCycle_def dispatch_def)
  have b: "\<not> ((0x6005 :: WORD) AND 0xF000 = 0xF000 \<and> (0x6005 :: WORD) AND 0x00FF = 0x0015)"
    by simp
  have c: "\<not> ((0x6005 :: WORD) AND 0xF000 = 0xF000 \<and> (0x6005 :: WORD) AND 0x00FF = 0x0018)"
    by simp
  have d: "delayTimer timer_example = 5" "soundTimer timer_example = 0"
    by (simp_all add: timer_example_def example_defs)
  from timers_decrement_per_cycle [OF a b c]
  have "delayTimer s' = 4 \<and> soundTimer s' = 0"
    by (simp add: d)
  with a b c d show ?thesis by simp
qed

text \<open>
  C8 as stated has the cycle never decrement a timer once per instruction. Two
  consecutive cycles, with no notion of time between them, take a delay timer of 5 to 3.
\<close>

theorem timer_drops_every_cycle:
  "delayTimer timer_example = 5 \<and>
   map_sum id delayTimer (run_cycles [0, 0] timer_example) = Inr 3"
  by (simp add: timer_example_def cycle_def GetNextOpcode_def MEMORY_SIZE_def
      DecodeOpcodeCycle_def dispatch_def Opcode00E0_def update_timers_def example_defs)

section \<open>Drawing\<close>

text \<open>A sprite that lies inside the grid, with its rows inside memory, is drawn.\<close>

lemma draw_line_inside:
  assumes "\<forall>xpixel \<in> set xs. coordx + xpixel < SCREEN_WIDTH" and "y < SCREEN_HEIGHT"
  shows "\<exists>s'. draw_line data coordx y xs s = Inr s' \<and> m_AddressI s' = m_AddressI s \<and>
           m_GameMemory s' = m_GameMemory s"
  using assms
proof (induction xs arbitrary: s)
  case Nil
  then show ?case by simp
next
  case (Cons xpixel rest)
  have rest: "\<forall>xpixel \<in> set rest. coordx + xpixel < SCREEN_WIDTH"
    using Cons.prems(1) by simp
  have here: "coordx + xpixel < SCREEN_WIDTH"
    using Cons.prems(1) by simp
  note step = Cons.IH [OF rest Cons.prems(2)]
  show ?case
  proof (cases "uint data AND push_bit (7 - xpixel) 1 \<noteq> 0")
    case False
    then show ?thesis using step [of s] by (simp add: Let_def)
  next
    case True
    let ?x = "coordx + xpixel"
    let ?s1 = "if m_ScreenData s ?x y = 1
               then s\<lparr> m_Registers := (m_Registers s)(0xF := 1) \<rparr> else s"
    let ?s2 = "?s1\<lparr> m_ScreenData :=
                 (m_ScreenData ?s1)(?x := (m_ScreenData ?s1 ?x)
                    (y := m_ScreenData ?s1 ?x y XOR 1)) \<rparr>"
    have "draw_line data coordx y (xpixel # rest) s = draw_line data coordx y rest ?s2"
      using True here Cons.prems(2) by (simp add: Let_def)
    moreover have "m_AddressI ?s2 = m_AddressI s" "m_GameMemory ?s2 = m_GameMemory s"
      by simp_all
    ultimately show ?thesis using step [of ?s2] by metis
  qed
qed

lemma draw_sprite_inside:
  assumes "coordx + 7 < SCREEN_WIDTH"
    and "\<forall>yline \<in> set ys. coordy + yline < SCREEN_HEIGHT \<and>
           unat (m_AddressI s) + yline < MEMORY_SIZE"
  shows "\<exists>s'. draw_sprite coordx coordy ys s = Inr s'"
  using assms(2)
proof (induction ys arbitrary: s)
  case Nil
  then show ?case by simp
next
  case (Cons yline rest)
  have cols: "\<forall>xpixel \<in> set [0..<8]. coordx + xpixel < SCREEN_WIDTH"
    using assms(1) by auto
  have row: "coordy + yline < SCREEN_HEIGHT" and mem: "unat (m_AddressI s) + yline < MEMORY_SIZE"
    using Cons.prems by simp_all
  obtain s1 where line:
    "draw_line (m_GameMemory s (unat (m_AddressI s) + yline)) coordx (coordy + yline) [0..<8] s
       = Inr s1"
    and same: "m_AddressI s1 = m_AddressI s"
    using draw_line_inside [OF cols row] by blast
  have "\<forall>yline \<in> set rest. coordy + yline < SCREEN_HEIGHT \<and>
           unat (m_AddressI s1) + yline < MEMORY_SIZE"
    using Cons.prems by (simp add: same)
  from Cons.IH [OF this] obtain s' where "draw_sprite coordx coordy rest s1 = Inr s'" ..
  then show ?case
    using mem line by (simp add: Let_def del: upt_Suc)
qed

lemma OpcodeDXYN_inside:
  assumes "unat (m_Registers s (GetRegisterX opcode)) + 7 < SCREEN_WIDTH"
    and "unat (m_Registers s (GetRegisterY opcode)) + unat (opcode AND 0x000F) \<le> SCREEN_HEIGHT"
    and "unat (m_AddressI s) + unat (opcode AND 0x000F) \<le> MEMORY_SIZE"
  shows "\<exists>s'. OpcodeDXYN opcode s = Inr s'"
proof -
  let ?s0 = "s\<lparr> m_Registers := (m_Registers s)(0xF := 0) \<rparr>"
  have "\<forall>yline \<in> set [0..<unat (opcode AND 0x000F)].
          unat (m_Registers s (GetRegisterY opcode)) + yline < SCREEN_HEIGHT \<and>
          unat (m_AddressI ?s0) + yline < MEMORY_SIZE"
    using assms(2,3) by auto
  from draw_sprite_inside [OF assms(1) this] show ?thesis
    by (simp add: OpcodeDXYN_def Let_def)
qed

text \<open>
  C9. The claim: whatever VX, VY and N are, every pixel access of DXYN lands inside the
  64 x 32 grid, by wrapping or by clipping. \<open>OpcodeDXYN\<close> does neither: it indexes
  \<open>m_ScreenData[VX + xpixel][VY + yline]\<close> as computed. Right after reset, opcode 0xD011
  with V0 = 62, V1 = 0 and I = 0 draws the first row of glyph 0 (0xF0); its third pixel is
  at column 64, outside the array.
\<close>

theorem draw_leaves_grid:
  "m_Registers draw_example 0 = 62 \<and> m_GameMemory draw_example 0 = 0xF0 \<and>
   OpcodeDXYN 0xD011 draw_example = Inl (ScreenOutOfBounds 64 0)"
  by (simp add: draw_example_def OpcodeDXYN_def MEMORY_SIZE_def SCREEN_WIDTH_def
      SCREEN_HEIGHT_def example_defs)

end
